theory Spec2Isabelle
  imports Complex_Main
begin

section \<open>Shared vocabulary of the three player variants\<close>

text \<open>
  The repository holds three variants of one class \<open>WAVPlayer\<close>:
  \<open>pygame_resume_player.py\<close> (definitions prefixed \<open>pg_\<close>), \<open>wav_player.py\<close>
  (prefixed \<open>wav_\<close>) and \<open>vlc_wav_player.py\<close> (prefixed \<open>vlc_\<close>). Each method
  \<open>_on_play\<close>, \<open>_on_stop\<close>, ... is a function from the object's state to the state it
  leaves behind, paired with the exception that escaped the call, if any. A Python method
  mutates the object before it raises, so the state is returned in both cases.

  Wall-clock readings (\<open>time.time()\<close>) are arguments of type \<open>real\<close>; one reading
  serves a whole handler call or a whole monitor iteration.
\<close>

datatype exn =
  AttributeError string
  | PygameError string
  | IndexError
  | ZeroDivisionError
  | IOError string

type_synonym 'a outcome = "exn option \<times> 'a"

text \<open>What \<open>print\<close> wrote: the three diagnostics of the sources.\<close>

datatype diagnostic =
  NoWavFiles string
  | DurationUnavailable string exn
  | PlaybackFailed exn

text \<open>
  The HTML text of \<open>current_file_label\<close>: the fixed caption followed either by the
  caption's word for "none" or by the file's base name.
\<close>

datatype file_label = Label_none | Label_file string

text \<open>Calls made on \<open>pygame.mixer.music\<close>, in the order they were made.\<close>

datatype mixer_call =
  MusicSetEndevent
  | MusicStop
  | MusicLoad string
  | MusicSetVolume real
  | MusicPlay
  | MusicPause
  | MusicUnpause

text \<open>Events of \<open>pygame.event.get()\<close>: only the type matters to the monitors.\<close>

datatype event = MUSIC_END | OtherEvent nat

text \<open>
  The playback engine as the players see it: whether \<open>music.load\<close> of a file and the
  \<open>music.play\<close> that follows it succeed (each raises \<open>pygame.error\<close> otherwise).
\<close>

record engine =
  loadable :: "string \<Rightarrow> bool"
  startable :: "string \<Rightarrow> bool"

text \<open>\<open>os.path.basename\<close> on a POSIX path: what follows the last slash.\<close>

definition basename :: "string \<Rightarrow> string" where
  "basename p = rev (takeWhile (\<lambda>c. c \<noteq> CHR ''/'') (rev p))"

text \<open>\<open>xs[i]\<close> of Python: a negative index counts from the end, out of range raises.\<close>

definition py_index :: "'a list \<Rightarrow> int \<Rightarrow> exn + 'a" where
  "py_index xs i =
     (let n = int (length xs);
          j = (if i < 0 then i + n else i)
      in if 0 \<le> j \<and> j < n then Inr (xs ! nat j) else Inl IndexError)"

text \<open>\<open>a / b\<close> on floats: a zero divisor raises.\<close>

definition py_truediv :: "real \<Rightarrow> real \<Rightarrow> exn + real" where
  "py_truediv a b = (if b = 0 then Inl ZeroDivisionError else Inr (a / b))"

subsection \<open>Formatting of the time label\<close>

fun show_nat :: "nat \<Rightarrow> string" where
  "show_nat n =
     (if n < 10 then [''0123456789'' ! n]
      else show_nat (n div 10) @ [''0123456789'' ! (n mod 10)])"

declare show_nat.simps [simp del]

definition show_int :: "int \<Rightarrow> string" where
  "show_int i = (if i < 0 then CHR ''-'' # show_nat (nat (- i)) else show_nat (nat i))"

text \<open>The format \<open>{s:02d}\<close>: zero padding up to width two.\<close>

definition show_02d :: "int \<Rightarrow> string" where
  "show_02d i =
     (if 0 \<le> i \<and> i < 10 then CHR ''0'' # show_int i else show_int i)"

text \<open>\<open>int(t // 60)\<close> and \<open>int(t % 60)\<close> on a float \<open>t\<close>.\<close>

definition minutes_of :: "real \<Rightarrow> int" where
  "minutes_of t = \<lfloor>t / 60\<rfloor>"

definition seconds_of :: "real \<Rightarrow> int" where
  "seconds_of t = \<lfloor>t - 60 * of_int \<lfloor>t / 60\<rfloor>\<rfloor>"

definition format_time_label :: "real \<Rightarrow> real \<Rightarrow> string" where
  "format_time_label current_time total_duration =
     show_int (minutes_of current_time) @ '':'' @ show_02d (seconds_of current_time)
       @ '' / '' @ show_int (minutes_of total_duration) @ '':''
       @ show_02d (seconds_of total_duration)"

section \<open>pygame\_resume\_player.py\<close>

subsection \<open>Duration index\<close>

text \<open>
  What opening a file with the \<open>wave\<close> module gives: an exception, or the header's frame
  count and frame rate.
\<close>

datatype wave_probe = ProbeRaises exn | WaveHeader nat nat

text \<open>The body of the \<open>try\<close> block of \<open>_get_wav_durations\<close> for one file.\<close>

definition probe_duration :: "(string \<Rightarrow> wave_probe) \<Rightarrow> string \<Rightarrow> exn + real" where
  "probe_duration probe wav_file =
     (case probe wav_file of
        ProbeRaises e \<Rightarrow> Inl e
      | WaveHeader frames rate \<Rightarrow> py_truediv (real frames) (real rate))"

text \<open>
  One iteration of the loop of \<open>_get_wav_durations\<close>: the dictionary and the printed
  lines after the \<open>try\<close>/\<open>except Exception\<close> for \<open>wav_file\<close>.
\<close>

definition index_duration ::
  "(string \<Rightarrow> wave_probe) \<Rightarrow> (string \<rightharpoonup> real) \<times> diagnostic list \<Rightarrow> string
     \<Rightarrow> (string \<rightharpoonup> real) \<times> diagnostic list" where
  "index_duration probe acc wav_file =
     (case probe_duration probe wav_file of
        Inr duration \<Rightarrow> ((fst acc)(wav_file \<mapsto> duration), snd acc)
      | Inl e \<Rightarrow> ((fst acc)(wav_file \<mapsto> 0), snd acc @ [DurationUnavailable wav_file e]))"

definition pg_get_wav_durations ::
  "(string \<Rightarrow> wave_probe) \<Rightarrow> string list \<Rightarrow> (string \<rightharpoonup> real) \<times> diagnostic list" where
  "pg_get_wav_durations probe file_list =
     foldl (index_duration probe) (Map.empty, []) file_list"

subsection \<open>The object\<close>

text \<open>
  The attributes \<open>__init__\<close> sets once the folder holds a file. The widgets are
  represented by the value each one shows; \<open>pg_mixer\<close> collects the calls made on
  \<open>pygame.mixer.music\<close> and \<open>pg_printed\<close> what was printed.
  \<open>_play_with_external_player\<close> assigns none of these attributes and swallows every
  exception of its own, so it has no counterpart here.
\<close>

record pg_state =
  pg_folder_path :: string
  pg_file_list :: "string list"
  pg_current_index :: int
  pg_is_playing :: bool
  pg_is_paused :: bool
  pg_volume :: real
  pg_current_file :: string
  pg_current_position :: real
  pg_pause_time :: "real option"
  pg_durations :: "string \<rightharpoonup> real"
  pg_autoplay_checkbox :: bool
  pg_current_file_label :: file_label
  pg_progress_bar :: real
  pg_time_label :: string
  pg_file_dropdown :: int
  pg_mixer :: "mixer_call list"
  pg_printed :: "diagnostic list"

text \<open>
  What \<open>__init__\<close> leaves when the folder holds no file: it returns right after the
  \<open>print\<close>, so the object has \<open>folder_path\<close> and \<open>file_list\<close> and none of the
  playback attributes; no widget and no monitor thread exist. \<open>inert_volume\<close> is the
  attribute \<open>volume\<close>, which \<open>_on_volume_change\<close> may assign later.
\<close>

record inert =
  inert_folder_path :: string
  inert_file_list :: "string list"
  inert_printed :: "diagnostic list"
  inert_volume :: "real option"
  inert_current_index :: "int option"
  inert_mixer :: "mixer_call list"

datatype 'a player = Inert inert | Ready 'a

text \<open>
  \<open>__init__\<close>: \<open>files\<close> is the value of \<open>sorted(glob.glob(...))\<close> and \<open>probe\<close>
  what the \<open>wave\<close> module finds in each file.
\<close>

definition pg_init :: "(string \<Rightarrow> wave_probe) \<Rightarrow> string \<Rightarrow> string list \<Rightarrow> pg_state player" where
  "pg_init probe folder_path files =
     (if files = [] then
        Inert \<lparr>inert_folder_path = folder_path, inert_file_list = files,
          inert_printed = [NoWavFiles folder_path], inert_volume = None,
          inert_current_index = None, inert_mixer = []\<rparr>
      else
        Ready \<lparr>pg_folder_path = folder_path, pg_file_list = files,
          pg_current_index = 0, pg_is_playing = False, pg_is_paused = False,
          pg_volume = 0.7, pg_current_file = [], pg_current_position = 0,
          pg_pause_time = None,
          pg_durations = fst (pg_get_wav_durations probe files),
          pg_autoplay_checkbox = True, pg_current_file_label = Label_none,
          pg_progress_bar = 0, pg_time_label = ''0:00 / 0:00'', pg_file_dropdown = 0,
          pg_mixer = [MusicSetEndevent],
          pg_printed = snd (pg_get_wav_durations probe files)\<rparr>)"

subsection \<open>Command handlers\<close>

definition pg_play_current :: "engine \<Rightarrow> real \<Rightarrow> pg_state \<Rightarrow> pg_state outcome" where
  "pg_play_current eng position st =
     (if 0 \<le> pg_current_index st \<and> pg_current_index st < int (length (pg_file_list st)) then
        let current_file = pg_file_list st ! nat (pg_current_index st);
            st1 = st\<lparr>pg_mixer := pg_mixer st @ [MusicStop, MusicLoad current_file]\<rparr>
        in if loadable eng current_file then
             let st2 = st1\<lparr>pg_mixer := pg_mixer st1 @ [MusicSetVolume (pg_volume st1), MusicPlay]\<rparr>
             in if startable eng current_file then
                  (None, st2\<lparr>pg_is_playing := True, pg_is_paused := False,
                     pg_current_position := position,
                     pg_current_file := basename current_file,
                     pg_current_file_label := Label_file (basename current_file)\<rparr>)
                else (Some (PygameError current_file), st2)
           else (Some (PygameError current_file), st1)
      else (None, st))"

text \<open>\<open>if self.pause_time:\<close> is false for \<open>None\<close> and for \<open>0.0\<close>.\<close>

definition pg_on_play :: "engine \<Rightarrow> real \<Rightarrow> pg_state \<Rightarrow> pg_state outcome" where
  "pg_on_play eng now st =
     (if \<not> pg_is_playing st then pg_play_current eng 0 st
      else if pg_is_paused st then
        let st1 = st\<lparr>pg_is_paused := False\<rparr>;
            st2 = (case pg_pause_time st1 of
                     None \<Rightarrow> st1
                   | Some t \<Rightarrow>
                       if t = 0 then st1
                       else st1\<lparr>pg_current_position := pg_current_position st1 + (now - t)\<rparr>)
        in pg_play_current eng (pg_current_position st2) st2
      else (None, st))"

definition pg_on_pause :: "real \<Rightarrow> pg_state \<Rightarrow> pg_state" where
  "pg_on_pause now st =
     (if pg_is_playing st \<and> \<not> pg_is_paused st then
        st\<lparr>pg_mixer := pg_mixer st @ [MusicStop], pg_is_paused := True,
           pg_pause_time := Some now\<rparr>
      else st)"

definition pg_on_stop :: "pg_state \<Rightarrow> pg_state" where
  "pg_on_stop st =
     (if pg_is_playing st then
        st\<lparr>pg_mixer := pg_mixer st @ [MusicStop], pg_is_playing := False,
           pg_is_paused := False, pg_current_position := 0, pg_pause_time := None,
           pg_current_file_label := Label_none, pg_progress_bar := 0,
           pg_time_label := ''0:00 / 0:00''\<rparr>
      else st)"

text \<open>
  Python's \<open>%\<close> with a positive right operand is \<open>mod\<close> on \<open>int\<close>: the result is
  never negative. The write to \<open>file_dropdown.value\<close> calls the observer
  \<open>_on_file_select\<close> with the index just stored in \<open>current_index\<close>, which returns at
  its test \<open>new_index != self.current_index\<close>; the write is therefore a field update.
\<close>

definition pg_on_prev :: "engine \<Rightarrow> pg_state \<Rightarrow> pg_state outcome" where
  "pg_on_prev eng st =
     (if length (pg_file_list st) > 0 then
        let st1 = st\<lparr>pg_current_index :=
                     (pg_current_index st - 1) mod int (length (pg_file_list st))\<rparr>
        in if pg_is_playing st1 then pg_play_current eng 0 st1
           else (None, st1\<lparr>pg_file_dropdown := pg_current_index st1\<rparr>)
      else (None, st))"

definition pg_on_next :: "engine \<Rightarrow> pg_state \<Rightarrow> pg_state outcome" where
  "pg_on_next eng st =
     (if length (pg_file_list st) > 0 then
        let st1 = st\<lparr>pg_current_index :=
                     (pg_current_index st + 1) mod int (length (pg_file_list st))\<rparr>
        in if pg_is_playing st1 then pg_play_current eng 0 st1
           else (None, st1\<lparr>pg_file_dropdown := pg_current_index st1\<rparr>)
      else (None, st))"

text \<open>\<open>change['new']\<close> is \<open>None\<close> or the index the dropdown now shows.\<close>

definition pg_on_file_select :: "engine \<Rightarrow> int option \<Rightarrow> pg_state \<Rightarrow> pg_state outcome" where
  "pg_on_file_select eng new st =
     (case new of
        None \<Rightarrow> (None, st)
      | Some new_index \<Rightarrow>
          if new_index \<noteq> pg_current_index st then
            let st1 = st\<lparr>pg_current_index := new_index\<rparr>
            in if pg_is_playing st1 then pg_play_current eng 0 st1 else (None, st1)
          else (None, st))"

definition pg_on_volume_change :: "real \<Rightarrow> pg_state \<Rightarrow> pg_state" where
  "pg_on_volume_change new st =
     st\<lparr>pg_volume := new, pg_mixer := pg_mixer st @ [MusicSetVolume new]\<rparr>"

subsection \<open>The monitor thread\<close>

text \<open>
  The body of the \<open>for\<close> loop over \<open>pygame.event.get()\<close>. An exception that leaves
  \<open>_on_next\<close> leaves the loop, and the thread, with it.
\<close>

fun pg_drain_events :: "engine \<Rightarrow> event list \<Rightarrow> pg_state \<Rightarrow> pg_state outcome" where
  "pg_drain_events eng [] st = (None, st)"
| "pg_drain_events eng (ev # evs) st =
     (if ev = MUSIC_END \<and> pg_is_playing st \<and> \<not> pg_is_paused st then
        (if pg_autoplay_checkbox st then
           (case pg_on_next eng st of
              (None, st1) \<Rightarrow> pg_drain_events eng evs st1
            | (Some e, st1) \<Rightarrow> (Some e, st1))
         else pg_drain_events eng evs (pg_on_stop st))
      else pg_drain_events eng evs st)"

text \<open>\<open>min(100, (current_time / total_duration) * 100)\<close>.\<close>

definition pg_progress :: "real \<Rightarrow> real \<Rightarrow> exn + real" where
  "pg_progress current_time total_duration =
     (case py_truediv current_time total_duration of
        Inl e \<Rightarrow> Inl e
      | Inr q \<Rightarrow> Inr (min 100 (q * 100)))"

text \<open>
  The second half of an iteration of \<open>_monitor_playback\<close>: the position update. The
  thread's local \<open>start_time\<close> is passed in and returned. \<open>durations.get(f, 0)\<close>
  defaults to 0.
\<close>

definition pg_update_position ::
  "engine \<Rightarrow> real \<Rightarrow> real option \<times> pg_state \<Rightarrow> (real option \<times> pg_state) outcome" where
  "pg_update_position eng now m =
     (let st = snd m in
      if pg_is_playing st \<and> \<not> pg_is_paused st then
        let start_time = (case fst m of None \<Rightarrow> now - pg_current_position st | Some t \<Rightarrow> t);
            current_time = now - start_time;
            st1 = st\<lparr>pg_current_position := current_time\<rparr>
        in (case py_index (pg_file_list st1) (pg_current_index st1) of
              Inl e \<Rightarrow> (Some e, (Some start_time, st1))
            | Inr current_file \<Rightarrow>
                let total_duration =
                      (case pg_durations st1 current_file of None \<Rightarrow> 0 | Some d \<Rightarrow> d)
                in if total_duration > 0 then
                     (case pg_progress current_time total_duration of
                        Inl e \<Rightarrow> (Some e, (Some start_time, st1))
                      | Inr progress \<Rightarrow>
                          let st2 = st1\<lparr>pg_progress_bar := progress,
                                      pg_time_label :=
                                        format_time_label current_time total_duration\<rparr>
                          in if current_time \<ge> total_duration \<and> pg_autoplay_checkbox st2 then
                               (case pg_on_next eng st2 of
                                  (None, st3) \<Rightarrow> (None, (None, st3))
                                | (Some e, st3) \<Rightarrow> (Some e, (Some start_time, st3)))
                             else (None, (Some start_time, st2)))
                   else (None, (Some start_time, st1)))
      else if pg_is_paused st then (None, m)
      else (None, (None, st)))"

text \<open>One iteration of the \<open>while\<close> loop of \<open>_monitor_playback\<close>.\<close>

definition pg_monitor_tick ::
  "engine \<Rightarrow> event list \<Rightarrow> real \<Rightarrow> real option \<times> pg_state
     \<Rightarrow> (real option \<times> pg_state) outcome" where
  "pg_monitor_tick eng events now m =
     (case pg_drain_events eng events (snd m) of
        (Some e, st1) \<Rightarrow> (Some e, (fst m, st1))
      | (None, st1) \<Rightarrow> pg_update_position eng now (fst m, st1))"

subsection \<open>Method calls on the object as constructed\<close>

text \<open>
  Reading an attribute that \<open>__init__\<close> never assigned raises \<open>AttributeError\<close>. Each
  function below is the method of the same name called on whatever \<open>__init__\<close> returned;
  on the inert object it follows the method's text up to the first such read.
\<close>

definition pg_call_on_play :: "engine \<Rightarrow> real \<Rightarrow> pg_state player \<Rightarrow> pg_state player outcome" where
  "pg_call_on_play eng now obj =
     (case obj of
        Inert i \<Rightarrow> (Some (AttributeError ''is_playing''), obj)
      | Ready st \<Rightarrow> (fst (pg_on_play eng now st), Ready (snd (pg_on_play eng now st))))"

definition pg_call_on_pause :: "real \<Rightarrow> pg_state player \<Rightarrow> pg_state player outcome" where
  "pg_call_on_pause now obj =
     (case obj of
        Inert i \<Rightarrow> (Some (AttributeError ''is_playing''), obj)
      | Ready st \<Rightarrow> (None, Ready (pg_on_pause now st)))"

definition pg_call_on_stop :: "pg_state player \<Rightarrow> pg_state player outcome" where
  "pg_call_on_stop obj =
     (case obj of
        Inert i \<Rightarrow> (Some (AttributeError ''is_playing''), obj)
      | Ready st \<Rightarrow> (None, Ready (pg_on_stop st)))"

definition pg_call_on_next :: "engine \<Rightarrow> pg_state player \<Rightarrow> pg_state player outcome" where
  "pg_call_on_next eng obj =
     (case obj of
        Inert i \<Rightarrow>
          if length (inert_file_list i) > 0 then (Some (AttributeError ''current_index''), obj)
          else (None, obj)
      | Ready st \<Rightarrow> (fst (pg_on_next eng st), Ready (snd (pg_on_next eng st))))"

definition pg_call_on_prev :: "engine \<Rightarrow> pg_state player \<Rightarrow> pg_state player outcome" where
  "pg_call_on_prev eng obj =
     (case obj of
        Inert i \<Rightarrow>
          if length (inert_file_list i) > 0 then (Some (AttributeError ''current_index''), obj)
          else (None, obj)
      | Ready st \<Rightarrow> (fst (pg_on_prev eng st), Ready (snd (pg_on_prev eng st))))"

definition pg_call_on_file_select ::
  "engine \<Rightarrow> int option \<Rightarrow> pg_state player \<Rightarrow> pg_state player outcome" where
  "pg_call_on_file_select eng new obj =
     (case obj of
        Inert i \<Rightarrow>
          (case new of
             None \<Rightarrow> (None, obj)
           | Some new_index \<Rightarrow> (Some (AttributeError ''current_index''), obj))
      | Ready st \<Rightarrow>
          (fst (pg_on_file_select eng new st), Ready (snd (pg_on_file_select eng new st))))"

text \<open>
  \<open>pygame.mixer.init()\<close> ran before the folder was read, so \<open>set_volume\<close> succeeds on
  the inert object too.
\<close>

definition pg_call_on_volume_change :: "real \<Rightarrow> pg_state player \<Rightarrow> pg_state player outcome" where
  "pg_call_on_volume_change new obj =
     (case obj of
        Inert i \<Rightarrow>
          (None, Inert (i\<lparr>inert_volume := Some new,
                          inert_mixer := inert_mixer i @ [MusicSetVolume new]\<rparr>))
      | Ready st \<Rightarrow> (None, Ready (pg_on_volume_change new st)))"

section \<open>wav\_player.py\<close>

record wav_state =
  wav_folder_path :: string
  wav_file_list :: "string list"
  wav_current_index :: int
  wav_is_playing :: bool
  wav_is_paused :: bool
  wav_volume :: real
  wav_current_file :: string
  wav_current_file_label :: file_label
  wav_progress_bar :: real
  wav_file_dropdown :: int
  wav_mixer :: "mixer_call list"
  wav_printed :: "diagnostic list"

text \<open>
  \<open>__init__\<close>. Here the mixer is initialised after the test for an empty folder, so the
  inert object has no initialised mixer.
\<close>

definition wav_init :: "string \<Rightarrow> string list \<Rightarrow> wav_state player" where
  "wav_init folder_path files =
     (if files = [] then
        Inert \<lparr>inert_folder_path = folder_path, inert_file_list = files,
          inert_printed = [NoWavFiles folder_path], inert_volume = None,
          inert_current_index = None, inert_mixer = []\<rparr>
      else
        Ready \<lparr>wav_folder_path = folder_path, wav_file_list = files,
          wav_current_index = 0, wav_is_playing = False, wav_is_paused = False,
          wav_volume = 0.7, wav_current_file = [], wav_current_file_label = Label_none,
          wav_progress_bar = 0, wav_file_dropdown = 0,
          wav_mixer = [MusicSetVolume 0.7, MusicSetEndevent], wav_printed = []\<rparr>)"

text \<open>
  The \<open>try\<close> block of \<open>_play_current\<close> with its \<open>except Exception\<close>: the flag says
  whether the block ran to its end; otherwise the handler has printed and the method
  returns.
\<close>

definition wav_try_play :: "engine \<Rightarrow> wav_state \<Rightarrow> bool \<times> wav_state" where
  "wav_try_play eng st =
     (let current_file = wav_file_list st ! nat (wav_current_index st);
          st1 = st\<lparr>wav_mixer := wav_mixer st @ [MusicLoad current_file]\<rparr>
      in if loadable eng current_file then
           let st2 = st1\<lparr>wav_mixer := wav_mixer st1 @ [MusicPlay]\<rparr>
           in if startable eng current_file then
                (True, st2\<lparr>wav_is_playing := True, wav_is_paused := False,
                   wav_current_file := basename current_file,
                   wav_current_file_label := Label_file (basename current_file)\<rparr>)
              else (False, st2\<lparr>wav_printed := wav_printed st2
                                    @ [PlaybackFailed (PygameError current_file)]\<rparr>)
         else (False, st1\<lparr>wav_printed := wav_printed st1
                               @ [PlaybackFailed (PygameError current_file)]\<rparr>))"

text \<open>
  \<open>_play_current\<close>. Its last statement writes \<open>file_dropdown.value\<close>. The dropdown
  notifies its observer \<open>_on_file_select\<close> when the value changes; this variant's
  observer has no test for an unchanged index, so with \<open>is_playing\<close> just set it calls
  \<open>_play_current\<close> once more. The inner call's own write changes nothing and ends the
  chain.
\<close>

definition wav_play_current :: "engine \<Rightarrow> wav_state \<Rightarrow> wav_state" where
  "wav_play_current eng st =
     (if 0 \<le> wav_current_index st \<and> wav_current_index st < int (length (wav_file_list st)) then
        let r1 = wav_try_play eng st
        in if fst r1 then
             let st2 = (snd r1)\<lparr>wav_progress_bar := 0\<rparr>
             in if wav_file_dropdown st2 = wav_current_index st2 then st2
                else
                  let r2 = wav_try_play eng (st2\<lparr>wav_file_dropdown := wav_current_index st2\<rparr>)
                  in if fst r2 then (snd r2)\<lparr>wav_progress_bar := 0\<rparr> else snd r2
           else snd r1
      else st)"

definition wav_on_file_select :: "engine \<Rightarrow> int option \<Rightarrow> wav_state \<Rightarrow> wav_state" where
  "wav_on_file_select eng new st =
     (case new of
        None \<Rightarrow> st
      | Some new_index \<Rightarrow>
          let st1 = st\<lparr>wav_current_index := new_index\<rparr>
          in if wav_is_playing st1 then wav_play_current eng st1 else st1)"

definition wav_on_play :: "engine \<Rightarrow> wav_state \<Rightarrow> wav_state" where
  "wav_on_play eng st =
     (if \<not> wav_is_playing st then wav_play_current eng st
      else if wav_is_paused st then
        st\<lparr>wav_mixer := wav_mixer st @ [MusicUnpause], wav_is_paused := False\<rparr>
      else st)"

definition wav_on_pause :: "wav_state \<Rightarrow> wav_state" where
  "wav_on_pause st =
     (if wav_is_playing st \<and> \<not> wav_is_paused st then
        st\<lparr>wav_mixer := wav_mixer st @ [MusicPause], wav_is_paused := True\<rparr>
      else st)"

definition wav_on_stop :: "wav_state \<Rightarrow> wav_state" where
  "wav_on_stop st =
     (if wav_is_playing st then
        st\<lparr>wav_mixer := wav_mixer st @ [MusicStop], wav_is_playing := False,
           wav_is_paused := False, wav_current_file_label := Label_none,
           wav_progress_bar := 0\<rparr>
      else st)"

text \<open>
  In the branch that is not playing the observer runs too, stores the same index again
  and stops at \<open>if self.is_playing\<close>: a field update.
\<close>

definition wav_on_prev :: "engine \<Rightarrow> wav_state \<Rightarrow> wav_state" where
  "wav_on_prev eng st =
     (if length (wav_file_list st) > 0 then
        let st1 = st\<lparr>wav_current_index :=
                     (wav_current_index st - 1) mod int (length (wav_file_list st))\<rparr>
        in if wav_is_playing st1 then wav_play_current eng st1
           else st1\<lparr>wav_file_dropdown := wav_current_index st1\<rparr>
      else st)"

definition wav_on_next :: "engine \<Rightarrow> wav_state \<Rightarrow> wav_state" where
  "wav_on_next eng st =
     (if length (wav_file_list st) > 0 then
        let st1 = st\<lparr>wav_current_index :=
                     (wav_current_index st + 1) mod int (length (wav_file_list st))\<rparr>
        in if wav_is_playing st1 then wav_play_current eng st1
           else st1\<lparr>wav_file_dropdown := wav_current_index st1\<rparr>
      else st)"

definition wav_on_volume_change :: "real \<Rightarrow> wav_state \<Rightarrow> wav_state" where
  "wav_on_volume_change new st =
     st\<lparr>wav_volume := new, wav_mixer := wav_mixer st @ [MusicSetVolume new]\<rparr>"

subsection \<open>The monitor thread\<close>





subsection \<open>Method calls on the object as constructed\<close>

definition wav_call_on_play :: "engine \<Rightarrow> wav_state player \<Rightarrow> wav_state player outcome" where
  "wav_call_on_play eng obj =
     (case obj of
        Inert i \<Rightarrow> (Some (AttributeError ''is_playing''), obj)
      | Ready st \<Rightarrow> (None, Ready (wav_on_play eng st)))"

definition wav_call_on_pause :: "wav_state player \<Rightarrow> wav_state player outcome" where
  "wav_call_on_pause obj =
     (case obj of
        Inert i \<Rightarrow> (Some (AttributeError ''is_playing''), obj)
      | Ready st \<Rightarrow> (None, Ready (wav_on_pause st)))"

definition wav_call_on_stop :: "wav_state player \<Rightarrow> wav_state player outcome" where
  "wav_call_on_stop obj =
     (case obj of
        Inert i \<Rightarrow> (Some (AttributeError ''is_playing''), obj)
      | Ready st \<Rightarrow> (None, Ready (wav_on_stop st)))"

definition wav_call_on_next :: "engine \<Rightarrow> wav_state player \<Rightarrow> wav_state player outcome" where
  "wav_call_on_next eng obj =
     (case obj of
        Inert i \<Rightarrow>
          if length (inert_file_list i) > 0 then (Some (AttributeError ''current_index''), obj)
          else (None, obj)
      | Ready st \<Rightarrow> (None, Ready (wav_on_next eng st)))"

definition wav_call_on_prev :: "engine \<Rightarrow> wav_state player \<Rightarrow> wav_state player outcome" where
  "wav_call_on_prev eng obj =
     (case obj of
        Inert i \<Rightarrow>
          if length (inert_file_list i) > 0 then (Some (AttributeError ''current_index''), obj)
          else (None, obj)
      | Ready st \<Rightarrow> (None, Ready (wav_on_prev eng st)))"

text \<open>On the inert object the method assigns \<open>current_index\<close> before it fails.\<close>

definition wav_call_on_file_select ::
  "engine \<Rightarrow> int option \<Rightarrow> wav_state player \<Rightarrow> wav_state player outcome" where
  "wav_call_on_file_select eng new obj =
     (case obj of
        Inert i \<Rightarrow>
          (case new of
             None \<Rightarrow> (None, obj)
           | Some new_index \<Rightarrow>
               (Some (AttributeError ''is_playing''),
                Inert (i\<lparr>inert_current_index := Some new_index\<rparr>)))
      | Ready st \<Rightarrow> (None, Ready (wav_on_file_select eng new st)))"

text \<open>On the inert object \<open>set_volume\<close> meets a mixer that was never initialised.\<close>

definition wav_call_on_volume_change :: "real \<Rightarrow> wav_state player \<Rightarrow> wav_state player outcome" where
  "wav_call_on_volume_change new obj =
     (case obj of
        Inert i \<Rightarrow>
          (Some (PygameError ''mixer not initialized''), Inert (i\<lparr>inert_volume := Some new\<rparr>))
      | Ready st \<Rightarrow> (None, Ready (wav_on_volume_change new st)))"

section \<open>vlc\_wav\_player.py\<close>

text \<open>Calls made on the VLC player and list player.\<close>

datatype vlc_call =
  PlayItemAtIndex int
  | SetPause bool
  | PlayerStop
  | AudioSetVolume int

record vlc_state =
  vlc_folder_path :: string
  vlc_file_list :: "string list"
  vlc_current_index :: int
  vlc_is_playing :: bool
  vlc_is_paused :: bool
  vlc_volume :: int
  vlc_current_file :: string
  vlc_autoplay_checkbox :: bool
  vlc_current_file_label :: file_label
  vlc_progress_bar :: real
  vlc_time_label :: string
  vlc_file_dropdown :: int
  vlc_calls :: "vlc_call list"
  vlc_printed :: "diagnostic list"

text \<open>
  \<open>__init__\<close> where the \<open>vlc\<close> module imports and the folder holds a file; otherwise
  it returns early and the object has none of the playback attributes.
\<close>

definition vlc_init :: "string \<Rightarrow> string list \<Rightarrow> vlc_state option" where
  "vlc_init folder_path files =
     (if files = [] then None
      else
        Some \<lparr>vlc_folder_path = folder_path, vlc_file_list = files,
          vlc_current_index = 0, vlc_is_playing = False, vlc_is_paused = False,
          vlc_volume = 70, vlc_current_file = [], vlc_autoplay_checkbox = True,
          vlc_current_file_label = Label_none, vlc_progress_bar = 0,
          vlc_time_label = ''0:00 / 0:00'', vlc_file_dropdown = 0,
          vlc_calls = [AudioSetVolume 70], vlc_printed = []\<rparr>)"


definition vlc_on_pause :: "vlc_state \<Rightarrow> vlc_state" where
  "vlc_on_pause st =
     (if vlc_is_playing st \<and> \<not> vlc_is_paused st then
        st\<lparr>vlc_calls := vlc_calls st @ [SetPause True], vlc_is_paused := True\<rparr>
      else st)"

definition vlc_on_stop :: "vlc_state \<Rightarrow> vlc_state" where
  "vlc_on_stop st =
     (if vlc_is_playing st then
        st\<lparr>vlc_calls := vlc_calls st @ [PlayerStop], vlc_is_playing := False,
           vlc_is_paused := False, vlc_current_file_label := Label_none,
           vlc_progress_bar := 0, vlc_time_label := ''0:00 / 0:00''\<rparr>
      else st)"

text \<open>
  The write to the dropdown in the branch that is not playing reaches the observer with
  the index already stored, and the observer's test \<open>new_index != self.current_index\<close>
  ends it: a field update.
\<close>

definition vlc_on_prev :: "vlc_state \<Rightarrow> vlc_state outcome" where
  "vlc_on_prev st =
     (if length (vlc_file_list st) > 0 then
        let prev_index = (vlc_current_index st - 1) mod int (length (vlc_file_list st))
        in if vlc_is_playing st then
             let st1 = st\<lparr>vlc_calls := vlc_calls st @ [PlayItemAtIndex prev_index],
                          vlc_current_index := prev_index\<rparr>
             in (case py_index (vlc_file_list st1) (vlc_current_index st1) of
                   Inl e \<Rightarrow> (Some e, st1)
                 | Inr f \<Rightarrow>
                     (None, st1\<lparr>vlc_current_file := basename f,
                               vlc_current_file_label := Label_file (basename f)\<rparr>))
           else (None, st\<lparr>vlc_current_index := prev_index, vlc_file_dropdown := prev_index\<rparr>)
      else (None, st))"



section \<open>States a session can reach\<close>

text \<open>
  The index names a file of the playlist; the controller is in phase Playing or Paused
  exactly when \<open>is_playing\<close> is set.
\<close>

definition pg_index_valid :: "pg_state \<Rightarrow> bool" where
  "pg_index_valid st =
     (0 \<le> pg_current_index st \<and> pg_current_index st < int (length (pg_file_list st)))"

definition pg_active_index_valid :: "pg_state \<Rightarrow> bool" where
  "pg_active_index_valid st = (pg_is_playing st \<longrightarrow> pg_index_valid st)"

text \<open>
  The states of a \<open>pygame_resume_player\<close> object built over a folder that holds a
  file: what \<open>__init__\<close> leaves, closed under the button handlers, a selection in the
  dropdown (whose options are the indices of \<open>file_list\<close>; the widget stores the
  chosen index before it calls the observer), the volume slider, the autoplay checkbox
  and an iteration of the monitor thread, each with any engine, clock reading and
  pending events. An exception does not end the session: the object stays as the failed
  call left it.
\<close>

inductive pg_reachable :: "pg_state \<Rightarrow> bool" where
  built: "pg_init probe folder_path files = Ready st \<Longrightarrow> pg_reachable st"
| by_play: "pg_reachable st \<Longrightarrow> pg_reachable (snd (pg_on_play eng now st))"
| by_pause: "pg_reachable st \<Longrightarrow> pg_reachable (pg_on_pause now st)"
| by_stop: "pg_reachable st \<Longrightarrow> pg_reachable (pg_on_stop st)"
| by_next: "pg_reachable st \<Longrightarrow> pg_reachable (snd (pg_on_next eng st))"
| by_prev: "pg_reachable st \<Longrightarrow> pg_reachable (snd (pg_on_prev eng st))"
| by_select:
    "pg_reachable st \<Longrightarrow> 0 \<le> i \<Longrightarrow> i < int (length (pg_file_list st)) \<Longrightarrow>
     pg_reachable (snd (pg_on_file_select eng (Some i) (st\<lparr>pg_file_dropdown := i\<rparr>)))"
| by_volume: "pg_reachable st \<Longrightarrow> pg_reachable (pg_on_volume_change v st)"
| by_autoplay: "pg_reachable st \<Longrightarrow> pg_reachable (st\<lparr>pg_autoplay_checkbox := b\<rparr>)"
| by_monitor:
    "pg_reachable st \<Longrightarrow>
     pg_reachable (snd (snd (pg_monitor_tick eng events now (start, st))))"

section \<open>Concrete inputs used below\<close>

text \<open>
  A folder of four files: one readable, one the \<open>wave\<close> module rejects, one whose
  header states a frame rate of zero, one of two seconds.
\<close>

definition c9_probe :: "string \<Rightarrow> wave_probe" where
  "c9_probe f =
     (if f = ''a.wav'' then WaveHeader 44100 44100
      else if f = ''b.wav'' then ProbeRaises (IOError ''b.wav'')
      else if f = ''c.wav'' then WaveHeader 10 0
      else WaveHeader 88200 44100)"

text \<open>
  A folder \<open>outputs\<close> with a track of three seconds and one of five, an engine that
  plays every file, and the objects \<open>__init__\<close> builds over that folder.
\<close>

definition demo_files :: "string list" where
  "demo_files = [''outputs/a.wav'', ''outputs/b.wav'']"

definition demo_probe :: "string \<Rightarrow> wave_probe" where
  "demo_probe f =
     (if f = ''outputs/a.wav'' then WaveHeader 132300 44100 else WaveHeader 220500 44100)"

definition demo_engine :: engine where
  "demo_engine = \<lparr>loadable = (\<lambda>f. True), startable = (\<lambda>f. True)\<rparr>"

definition pg_demo :: pg_state where
  "pg_demo =
     \<lparr>pg_folder_path = ''outputs'', pg_file_list = [''outputs/a.wav'', ''outputs/b.wav''],
      pg_current_index = 0, pg_is_playing = False, pg_is_paused = False,
      pg_volume = 0.7, pg_current_file = [], pg_current_position = 0,
      pg_pause_time = None,
      pg_durations = [''outputs/a.wav'' \<mapsto> 3, ''outputs/b.wav'' \<mapsto> 5],
      pg_autoplay_checkbox = True, pg_current_file_label = Label_none,
      pg_progress_bar = 0, pg_time_label = ''0:00 / 0:00'', pg_file_dropdown = 0,
      pg_mixer = [MusicSetEndevent], pg_printed = []\<rparr>"

definition wav_demo :: wav_state where
  "wav_demo =
     \<lparr>wav_folder_path = ''outputs'', wav_file_list = [''outputs/a.wav'', ''outputs/b.wav''],
      wav_current_index = 0, wav_is_playing = False, wav_is_paused = False,
      wav_volume = 0.7, wav_current_file = [], wav_current_file_label = Label_none,
      wav_progress_bar = 0, wav_file_dropdown = 0,
      wav_mixer = [MusicSetVolume 0.7, MusicSetEndevent], wav_printed = []\<rparr>"

definition vlc_demo :: vlc_state where
  "vlc_demo =
     \<lparr>vlc_folder_path = ''outputs'', vlc_file_list = [''outputs/a.wav'', ''outputs/b.wav''],
      vlc_current_index = 0, vlc_is_playing = False, vlc_is_paused = False,
      vlc_volume = 70, vlc_current_file = [], vlc_autoplay_checkbox = True,
      vlc_current_file_label = Label_none, vlc_progress_bar = 0,
      vlc_time_label = ''0:00 / 0:00'', vlc_file_dropdown = 0,
      vlc_calls = [AudioSetVolume 70], vlc_printed = []\<rparr>"

text \<open>The same objects after \<open>_on_play\<close> at time 0.\<close>

definition pg_demo_playing :: pg_state where
  "pg_demo_playing = snd (pg_on_play demo_engine 0 pg_demo)"



text \<open>The freshly built objects after one press of next: the index is the last one.\<close>

definition pg_demo_last :: pg_state where
  "pg_demo_last = snd (pg_on_next demo_engine pg_demo)"

definition wav_demo_last :: wav_state where
  "wav_demo_last = wav_on_next demo_engine wav_demo"







text \<open>
  A session on the first track (three seconds): play at time 0, monitor iterations at 0
  and 2, pause at 2, an iteration while paused at 7, resume at 12 (ten seconds after the
  pause), and the next iteration at 12. Each state is paired with the monitor thread's
  local \<open>start_time\<close>.
\<close>

definition c1_started :: "real option \<times> pg_state" where
  "c1_started = (None, pg_demo_playing)"

definition c1_tick0 :: "real option \<times> pg_state" where
  "c1_tick0 = snd (pg_monitor_tick demo_engine [] 0 c1_started)"

definition c1_tick2 :: "real option \<times> pg_state" where
  "c1_tick2 = snd (pg_monitor_tick demo_engine [] 2 c1_tick0)"

definition c1_paused :: "real option \<times> pg_state" where
  "c1_paused = (fst c1_tick2, pg_on_pause 2 (snd c1_tick2))"

definition c1_waiting :: "real option \<times> pg_state" where
  "c1_waiting = snd (pg_monitor_tick demo_engine [] 7 c1_paused)"

definition c1_resumed :: "real option \<times> pg_state" where
  "c1_resumed = (fst c1_waiting, snd (pg_on_play demo_engine 12 (snd c1_waiting)))"

definition c1_after :: "real option \<times> pg_state" where
  "c1_after = snd (pg_monitor_tick demo_engine [] 12 c1_resumed)"




text \<open>
  The second track (five seconds) started by a press of next while the first was
  playing, and the monitor iteration at 5 that finds its end notification; the monitor's
  \<open>start_time\<close> is still the one armed at 0.
\<close>

definition c2_on_b :: pg_state where
  "c2_on_b = snd (pg_on_next demo_engine pg_demo_playing)"

definition c2_both_checks :: "real option \<times> pg_state" where
  "c2_both_checks = snd (pg_monitor_tick demo_engine [MUSIC_END] 5 (Some 0, c2_on_b))"




section \<open>Properties\<close>

subsection \<open>Duration index\<close>

lemma index_duration_lookup:
  "fst (index_duration probe acc f) g =
     (if g = f then Some (case probe_duration probe f of Inl e \<Rightarrow> 0 | Inr d \<Rightarrow> d)
      else fst acc g)"
  by (simp add: index_duration_def split: sum.splits)

lemma foldl_index_duration_lookup:
  "fst (foldl (index_duration probe) acc fs) g =
     (if g \<in> set fs then Some (case probe_duration probe g of Inl e \<Rightarrow> 0 | Inr d \<Rightarrow> d)
      else fst acc g)"
  by (induction fs arbitrary: acc) (simp_all add: index_duration_lookup)

lemma pg_get_wav_durations_lookup:
  "fst (pg_get_wav_durations probe fs) g =
     (if g \<in> set fs then Some (case probe_duration probe g of Inl e \<Rightarrow> 0 | Inr d \<Rightarrow> d)
      else None)"
  by (simp add: pg_get_wav_durations_def foldl_index_duration_lookup)

text \<open>
  Claim C9. \<open>_get_wav_durations\<close> is a total function of the playlist: the dictionary it
  returns has exactly the playlist's files as keys; a file whose probe fails (the
  \<open>wave\<close> module raises, or the division by the frame rate does) is recorded with
  duration 0; and every file whose probe succeeds is recorded with its duration, wherever
  it stands among failing ones.
\<close>

theorem c9_duration_index_total:
  "dom (fst (pg_get_wav_durations probe file_list)) = set file_list
   \<and> (\<forall>f \<in> set file_list.
        (\<forall>e. probe_duration probe f = Inl e
           \<longrightarrow> fst (pg_get_wav_durations probe file_list) f = Some 0)
        \<and> (\<forall>d. probe_duration probe f = Inr d
           \<longrightarrow> fst (pg_get_wav_durations probe file_list) f = Some d))"
  by (auto simp: pg_get_wav_durations_lookup dom_def split: if_splits)

theorem c9_duration_index_total_witness:
  "probe_duration c9_probe ''b.wav'' = Inl (IOError ''b.wav'')
   \<and> probe_duration c9_probe ''c.wav'' = Inl ZeroDivisionError
   \<and> probe_duration c9_probe ''d.wav'' = Inr 2
   \<and> dom (fst (pg_get_wav_durations c9_probe [''a.wav'', ''b.wav'', ''c.wav'', ''d.wav'']))
       = {''a.wav'', ''b.wav'', ''c.wav'', ''d.wav''}
   \<and> fst (pg_get_wav_durations c9_probe [''a.wav'', ''b.wav'', ''c.wav'', ''d.wav'']) ''b.wav'' = Some 0
   \<and> fst (pg_get_wav_durations c9_probe [''a.wav'', ''b.wav'', ''c.wav'', ''d.wav'']) ''c.wav'' = Some 0
   \<and> fst (pg_get_wav_durations c9_probe [''a.wav'', ''b.wav'', ''c.wav'', ''d.wav'']) ''d.wav'' = Some 2"
proof -
  have b: "probe_duration c9_probe ''b.wav'' = Inl (IOError ''b.wav'')"
    by (simp add: probe_duration_def c9_probe_def)
  have c: "probe_duration c9_probe ''c.wav'' = Inl ZeroDivisionError"
    by (simp add: probe_duration_def py_truediv_def c9_probe_def)
  have d: "probe_duration c9_probe ''d.wav'' = Inr 2"
    by (simp add: probe_duration_def py_truediv_def c9_probe_def)
  show ?thesis
    using c9_duration_index_total [of c9_probe "[''a.wav'', ''b.wav'', ''c.wav'', ''d.wav'']"] b c d
    by simp
qed

subsection \<open>The demonstration objects\<close>

lemma pg_init_demo: "pg_init demo_probe ''outputs'' demo_files = Ready pg_demo"
  by (simp add: pg_init_def pg_demo_def demo_files_def demo_probe_def pg_get_wav_durations_def
      index_duration_def probe_duration_def py_truediv_def)

lemma wav_init_demo: "wav_init ''outputs'' demo_files = Ready wav_demo"
  by (simp add: wav_init_def wav_demo_def demo_files_def)

lemma vlc_init_demo: "vlc_init ''outputs'' demo_files = Some vlc_demo"
  by (simp add: vlc_init_def vlc_demo_def demo_files_def)

lemma pg_demo_playing_eq:
  "pg_demo_playing =
     pg_demo\<lparr>pg_mixer := [MusicSetEndevent, MusicStop, MusicLoad ''outputs/a.wav'',
                    MusicSetVolume 0.7, MusicPlay],
       pg_is_playing := True, pg_current_file := ''a.wav'',
       pg_current_file_label := Label_file ''a.wav''\<rparr>"
  by (simp add: pg_demo_playing_def pg_demo_def pg_on_play_def pg_play_current_def
      demo_engine_def basename_def Let_def)



subsection \<open>Stop while stopped\<close>

text \<open>
  Claim C7. In all three variants \<open>_on_stop\<close> on a controller that is not playing
  returns the object as it was: every attribute, hence the file label, the progress bar
  and the time text, keeps its content, and the list of engine calls gains no entry.
\<close>

theorem c7_stop_while_stopped_is_noop:
  "(\<not> pg_is_playing p \<longrightarrow> pg_on_stop p = p)
   \<and> (\<not> wav_is_playing w \<longrightarrow> wav_on_stop w = w)
   \<and> (\<not> vlc_is_playing v \<longrightarrow> vlc_on_stop v = v)"
  by (simp add: pg_on_stop_def wav_on_stop_def vlc_on_stop_def)

theorem c7_stop_while_stopped_is_noop_witness:
  "\<not> pg_is_playing pg_demo \<and> pg_on_stop pg_demo = pg_demo
   \<and> pg_mixer (pg_on_stop pg_demo) = [MusicSetEndevent]
   \<and> \<not> wav_is_playing wav_demo \<and> wav_on_stop wav_demo = wav_demo
   \<and> \<not> vlc_is_playing vlc_demo \<and> vlc_on_stop vlc_demo = vlc_demo"
proof -
  have a: "\<not> pg_is_playing pg_demo" by (simp add: pg_demo_def)
  have b: "\<not> wav_is_playing wav_demo" by (simp add: wav_demo_def)
  have c: "\<not> vlc_is_playing vlc_demo" by (simp add: vlc_demo_def)
  have d: "pg_mixer pg_demo = [MusicSetEndevent]" by (simp add: pg_demo_def)
  from c7_stop_while_stopped_is_noop [where p = pg_demo and w = wav_demo and v = vlc_demo] a b c d
  show ?thesis by simp
qed

subsection \<open>Index arithmetic of next and previous\<close>

lemma pg_play_current_frame:
  "pg_file_list (snd (pg_play_current eng pos st)) = pg_file_list st
   \<and> pg_current_index (snd (pg_play_current eng pos st)) = pg_current_index st"
  by (simp add: pg_play_current_def Let_def)

lemma pg_on_next_index:
  "pg_file_list st \<noteq> [] \<Longrightarrow>
   pg_current_index (snd (pg_on_next eng st))
     = (pg_current_index st + 1) mod int (length (pg_file_list st))"
  by (simp add: pg_on_next_def Let_def pg_play_current_frame)

lemma pg_on_next_files: "pg_file_list (snd (pg_on_next eng st)) = pg_file_list st"
  by (simp add: pg_on_next_def Let_def pg_play_current_frame)

lemma pg_on_prev_index:
  "pg_file_list st \<noteq> [] \<Longrightarrow>
   pg_current_index (snd (pg_on_prev eng st))
     = (pg_current_index st - 1) mod int (length (pg_file_list st))"
  by (simp add: pg_on_prev_def Let_def pg_play_current_frame)

lemma pg_on_prev_files: "pg_file_list (snd (pg_on_prev eng st)) = pg_file_list st"
  by (simp add: pg_on_prev_def Let_def pg_play_current_frame)

lemma wav_try_play_frame:
  "wav_file_list (snd (wav_try_play eng st)) = wav_file_list st
   \<and> wav_current_index (snd (wav_try_play eng st)) = wav_current_index st"
  by (simp add: wav_try_play_def Let_def)

lemma wav_play_current_frame:
  "wav_file_list (wav_play_current eng st) = wav_file_list st
   \<and> wav_current_index (wav_play_current eng st) = wav_current_index st"
  by (simp add: wav_play_current_def Let_def wav_try_play_frame)

lemma wav_on_next_index:
  "wav_file_list st \<noteq> [] \<Longrightarrow>
   wav_current_index (wav_on_next eng st)
     = (wav_current_index st + 1) mod int (length (wav_file_list st))"
  by (simp add: wav_on_next_def Let_def wav_play_current_frame)

lemma wav_on_next_files: "wav_file_list (wav_on_next eng st) = wav_file_list st"
  by (simp add: wav_on_next_def Let_def wav_play_current_frame)

lemma wav_on_prev_index:
  "wav_file_list st \<noteq> [] \<Longrightarrow>
   wav_current_index (wav_on_prev eng st)
     = (wav_current_index st - 1) mod int (length (wav_file_list st))"
  by (simp add: wav_on_prev_def Let_def wav_play_current_frame)

lemma wav_on_prev_files: "wav_file_list (wav_on_prev eng st) = wav_file_list st"
  by (simp add: wav_on_prev_def Let_def wav_play_current_frame)

text \<open>After \<open>k\<close> presses of next the index has moved \<open>k\<close> places round the playlist.\<close>

lemma pg_next_iterated:
  "pg_file_list st \<noteq> [] \<Longrightarrow> 0 \<le> pg_current_index st \<Longrightarrow>
   pg_current_index st < int (length (pg_file_list st)) \<Longrightarrow>
   pg_file_list (((\<lambda>s. snd (pg_on_next eng s)) ^^ k) st) = pg_file_list st
   \<and> pg_current_index (((\<lambda>s. snd (pg_on_next eng s)) ^^ k) st)
       = (pg_current_index st + int k) mod int (length (pg_file_list st))"
proof (induction k)
  case 0
  then show ?case by simp
next
  case (Suc k)
  then show ?case
    by (simp add: pg_on_next_index pg_on_next_files mod_simps algebra_simps)
qed

lemma wav_next_iterated:
  "wav_file_list st \<noteq> [] \<Longrightarrow> 0 \<le> wav_current_index st \<Longrightarrow>
   wav_current_index st < int (length (wav_file_list st)) \<Longrightarrow>
   wav_file_list ((wav_on_next eng ^^ k) st) = wav_file_list st
   \<and> wav_current_index ((wav_on_next eng ^^ k) st)
       = (wav_current_index st + int k) mod int (length (wav_file_list st))"
proof (induction k)
  case 0
  then show ?case by simp
next
  case (Suc k)
  then show ?case
    by (simp add: wav_on_next_index wav_on_next_files mod_simps algebra_simps)
qed

text \<open>
  Claim C4. For a playlist of \<open>N \<ge> 1\<close> files and a start index in \<open>0 ..< N\<close>, pressing
  next \<open>N\<close> times brings \<open>current_index\<close> back to the start index; next from the last
  index gives 0 and previous from index 0 gives \<open>N - 1\<close>. This holds in
  \<open>pygame_resume_player.py\<close> and in \<open>wav_player.py\<close>, whatever the playback state and
  whether or not the engine can play the files (an exception of \<open>_play_current\<close> leaves
  after the index is stored).
\<close>

theorem c4_next_wraps_around:
  assumes "pg_file_list p \<noteq> []" and "0 \<le> pg_current_index p"
    and "pg_current_index p < int (length (pg_file_list p))"
    and "wav_file_list w \<noteq> []" and "0 \<le> wav_current_index w"
    and "wav_current_index w < int (length (wav_file_list w))"
  shows "pg_current_index (((\<lambda>s. snd (pg_on_next eng s)) ^^ length (pg_file_list p)) p)
           = pg_current_index p
    \<and> (pg_current_index p = int (length (pg_file_list p)) - 1
         \<longrightarrow> pg_current_index (snd (pg_on_next eng p)) = 0)
    \<and> (pg_current_index p = 0
         \<longrightarrow> pg_current_index (snd (pg_on_prev eng p)) = int (length (pg_file_list p)) - 1)
    \<and> wav_current_index ((wav_on_next eng ^^ length (wav_file_list w)) w) = wav_current_index w
    \<and> (wav_current_index w = int (length (wav_file_list w)) - 1
         \<longrightarrow> wav_current_index (wav_on_next eng w) = 0)
    \<and> (wav_current_index w = 0
         \<longrightarrow> wav_current_index (wav_on_prev eng w) = int (length (wav_file_list w)) - 1)"
proof -
  have a: "pg_current_index (((\<lambda>s. snd (pg_on_next eng s)) ^^ length (pg_file_list p)) p)
             = pg_current_index p"
    using assms(1-3) pg_next_iterated [where st = p and eng = eng and k = "length (pg_file_list p)"]
    by simp
  have b: "pg_current_index p = int (length (pg_file_list p)) - 1
             \<longrightarrow> pg_current_index (snd (pg_on_next eng p)) = 0"
    using assms(1) by (simp add: pg_on_next_index)
  have c: "pg_current_index p = 0
             \<longrightarrow> pg_current_index (snd (pg_on_prev eng p)) = int (length (pg_file_list p)) - 1"
    using assms(1) by (simp add: pg_on_prev_index zmod_minus1)
  have d: "wav_current_index ((wav_on_next eng ^^ length (wav_file_list w)) w) = wav_current_index w"
    using assms(4-6) wav_next_iterated [where st = w and eng = eng and k = "length (wav_file_list w)"]
    by simp
  have e: "wav_current_index w = int (length (wav_file_list w)) - 1
             \<longrightarrow> wav_current_index (wav_on_next eng w) = 0"
    using assms(4) by (simp add: wav_on_next_index)
  have f: "wav_current_index w = 0
             \<longrightarrow> wav_current_index (wav_on_prev eng w) = int (length (wav_file_list w)) - 1"
    using assms(4) by (simp add: wav_on_prev_index zmod_minus1)
  from a b c d e f show ?thesis by simp
qed

theorem c4_next_wraps_around_witness:
  "length (pg_file_list pg_demo) = 2 \<and> pg_current_index pg_demo = 0
   \<and> pg_current_index (((\<lambda>s. snd (pg_on_next demo_engine s)) ^^ length (pg_file_list pg_demo)) pg_demo) = 0
   \<and> pg_current_index (snd (pg_on_prev demo_engine pg_demo)) = 1
   \<and> pg_current_index pg_demo_last = 1
   \<and> pg_current_index (snd (pg_on_next demo_engine pg_demo_last)) = 0
   \<and> length (wav_file_list wav_demo) = 2 \<and> wav_current_index wav_demo = 0
   \<and> wav_current_index ((wav_on_next demo_engine ^^ length (wav_file_list wav_demo)) wav_demo) = 0
   \<and> wav_current_index (wav_on_prev demo_engine wav_demo) = 1
   \<and> wav_current_index wav_demo_last = 1
   \<and> wav_current_index (wav_on_next demo_engine wav_demo_last) = 0"
proof -
  have p0: "pg_file_list pg_demo \<noteq> []" "pg_current_index pg_demo = 0"
    "length (pg_file_list pg_demo) = 2"
    by (simp_all add: pg_demo_def)
  have w0: "wav_file_list wav_demo \<noteq> []" "wav_current_index wav_demo = 0"
    "length (wav_file_list wav_demo) = 2"
    by (simp_all add: wav_demo_def)
  have p1: "pg_file_list pg_demo_last = pg_file_list pg_demo" "pg_current_index pg_demo_last = 1"
    using p0 by (simp_all add: pg_demo_last_def pg_on_next_files pg_on_next_index)
  have w1: "wav_file_list wav_demo_last = wav_file_list wav_demo" "wav_current_index wav_demo_last = 1"
    using w0 by (simp_all add: wav_demo_last_def wav_on_next_files wav_on_next_index)
  have first: "pg_current_index (((\<lambda>s. snd (pg_on_next demo_engine s)) ^^ length (pg_file_list pg_demo)) pg_demo) = 0
      \<and> pg_current_index (snd (pg_on_prev demo_engine pg_demo)) = 1
      \<and> wav_current_index ((wav_on_next demo_engine ^^ length (wav_file_list wav_demo)) wav_demo) = 0
      \<and> wav_current_index (wav_on_prev demo_engine wav_demo) = 1"
    using c4_next_wraps_around [where p = pg_demo and w = wav_demo and eng = demo_engine] p0 w0
    by simp
  have last: "pg_current_index (snd (pg_on_next demo_engine pg_demo_last)) = 0
      \<and> wav_current_index (wav_on_next demo_engine wav_demo_last) = 0"
    using c4_next_wraps_around [where p = pg_demo_last and w = wav_demo_last and eng = demo_engine]
      p0 w0 p1 w1
    by simp
  from first last p0 w0 p1 w1 show ?thesis by simp
qed

subsection \<open>Stop keeps the track\<close>








lemma pg_demo_playing_facts:
  "pg_is_playing pg_demo_playing" "pg_current_index pg_demo_playing = 0"
  "pg_file_list pg_demo_playing = [''outputs/a.wav'', ''outputs/b.wav'']"
  "pg_volume pg_demo_playing = 0.7"
  "pg_mixer pg_demo_playing
     = [MusicSetEndevent, MusicStop, MusicLoad ''outputs/a.wav'', MusicSetVolume 0.7, MusicPlay]"
  by (simp_all add: pg_demo_playing_eq pg_demo_def)



lemma demo_engine_plays: "loadable demo_engine f" "startable demo_engine f"
  by (simp_all add: demo_engine_def)



subsection \<open>Progress percentage\<close>

text \<open>The definitions that evaluating a monitor iteration on a concrete object unfolds.\<close>

lemmas pg_run_defs = pg_monitor_tick_def pg_update_position_def Let_def py_index_def
  pg_progress_def py_truediv_def format_time_label_def show_int_def show_02d_def
  minutes_of_def seconds_of_def show_nat.simps pg_on_next_def pg_play_current_def
  pg_on_play_def pg_on_pause_def basename_def demo_engine_def























subsection \<open>The index of an active controller\<close>

lemma pg_play_current_valid:
  "pg_index_valid st \<Longrightarrow> pg_index_valid (snd (pg_play_current eng pos st))"
  by (simp add: pg_index_valid_def pg_play_current_frame)

lemma pg_on_play_frame:
  "pg_file_list (snd (pg_on_play eng now st)) = pg_file_list st
   \<and> pg_current_index (snd (pg_on_play eng now st)) = pg_current_index st"
  by (simp add: pg_on_play_def Let_def pg_play_current_frame split: option.splits)

lemma pg_on_next_valid:
  "pg_file_list st \<noteq> [] \<Longrightarrow> pg_index_valid (snd (pg_on_next eng st))"
  by (simp add: pg_index_valid_def pg_on_next_index pg_on_next_files)

lemma pg_on_prev_valid:
  "pg_file_list st \<noteq> [] \<Longrightarrow> pg_index_valid (snd (pg_on_prev eng st))"
  by (simp add: pg_index_valid_def pg_on_prev_index pg_on_prev_files)

lemma pg_index_valid_nonempty: "pg_index_valid st \<Longrightarrow> pg_file_list st \<noteq> []"
  by (auto simp: pg_index_valid_def)

lemma pg_on_stop_valid: "pg_index_valid st \<Longrightarrow> pg_index_valid (pg_on_stop st)"
  by (simp add: pg_index_valid_def pg_on_stop_def)

lemma pg_on_pause_valid: "pg_index_valid st \<Longrightarrow> pg_index_valid (pg_on_pause now st)"
  by (simp add: pg_index_valid_def pg_on_pause_def)

lemma pg_on_file_select_valid:
  "pg_index_valid st \<Longrightarrow> 0 \<le> i \<Longrightarrow> i < int (length (pg_file_list st)) \<Longrightarrow>
   pg_index_valid (snd (pg_on_file_select eng (Some i) st))"
  by (simp add: pg_index_valid_def pg_on_file_select_def Let_def pg_play_current_frame)

lemma pg_drain_events_valid:
  "pg_index_valid st \<Longrightarrow> pg_index_valid (snd (pg_drain_events eng evs st))"
proof (induction evs arbitrary: st)
  case Nil
  then show ?case by simp
next
  case (Cons ev evs)
  have n: "pg_index_valid (snd (pg_on_next eng st))"
    using Cons.prems by (simp add: pg_on_next_valid pg_index_valid_nonempty)
  have s: "pg_index_valid (pg_on_stop st)"
    using Cons.prems by (rule pg_on_stop_valid)
  show ?case
  proof (cases "pg_on_next eng st")
    case (Pair x st1)
    with n have "pg_index_valid st1" by simp
    with Pair Cons s show ?thesis by (cases x) simp_all
  qed
qed

lemma pg_on_next_valid_pair:
  "pg_on_next eng s = (x, s') \<Longrightarrow> pg_index_valid s \<Longrightarrow> pg_index_valid s'"
  using pg_on_next_valid [of s eng] pg_index_valid_nonempty [of s] by simp

lemma pg_index_valid_display:
  "pg_index_valid (st\<lparr>pg_current_position := a\<rparr>) = pg_index_valid st"
  "pg_index_valid (st\<lparr>pg_progress_bar := b\<rparr>) = pg_index_valid st"
  "pg_index_valid (st\<lparr>pg_time_label := c\<rparr>) = pg_index_valid st"
  by (simp_all add: pg_index_valid_def)

lemma pg_update_position_valid:
  assumes "pg_index_valid st"
  shows "pg_index_valid (snd (snd (pg_update_position eng now (start, st))))"
  using assms
  by (auto simp: pg_update_position_def Let_def pg_index_valid_display
      split: option.splits sum.splits prod.splits
      intro: pg_on_next_valid_pair)

lemma pg_monitor_tick_valid:
  assumes "pg_index_valid st"
  shows "pg_index_valid (snd (snd (pg_monitor_tick eng evs now (start, st))))"
proof (cases "pg_drain_events eng evs st")
  case (Pair x st1)
  have v: "pg_index_valid st1"
    using pg_drain_events_valid [OF assms, of eng evs] Pair by simp
  show ?thesis
    using Pair v pg_update_position_valid [OF v, of eng now start]
    by (cases x) (simp_all add: pg_monitor_tick_def)
qed

lemma pg_init_valid: "pg_init probe folder_path files = Ready st \<Longrightarrow> pg_index_valid st"
  by (auto simp: pg_init_def pg_index_valid_def split: if_splits)

lemma pg_reachable_valid: "pg_reachable st \<Longrightarrow> pg_index_valid st"
proof (induction rule: pg_reachable.induct)
  case (built probe folder_path files st)
  then show ?case by (rule pg_init_valid)
next
  case (by_play st eng now)
  then show ?case by (simp add: pg_index_valid_def pg_on_play_frame)
next
  case (by_pause st now)
  then show ?case by (simp add: pg_on_pause_valid)
next
  case (by_stop st)
  then show ?case by (simp add: pg_on_stop_valid)
next
  case (by_next st eng)
  then show ?case by (simp add: pg_on_next_valid pg_index_valid_nonempty)
next
  case (by_prev st eng)
  then show ?case by (simp add: pg_on_prev_valid pg_index_valid_nonempty)
next
  case (by_select st i eng)
  have "pg_index_valid (st\<lparr>pg_file_dropdown := i\<rparr>)"
    using by_select.IH by (simp add: pg_index_valid_def)
  then show ?case
    using by_select.hyps(2,3) pg_on_file_select_valid [of "st\<lparr>pg_file_dropdown := i\<rparr>" i eng]
    by simp
next
  case (by_volume st v)
  then show ?case by (simp add: pg_index_valid_def pg_on_volume_change_def)
next
  case (by_autoplay st b)
  then show ?case by (simp add: pg_index_valid_def)
next
  case (by_monitor st eng events now start)
  then show ?case by (simp add: pg_monitor_tick_valid)
qed

lemma pg_handlers_keep_active_index_valid:
  assumes "pg_active_index_valid st"
  shows "pg_active_index_valid (snd (pg_on_play eng now st))"
    and "pg_active_index_valid (pg_on_pause now st)"
    and "pg_active_index_valid (pg_on_stop st)"
    and "pg_active_index_valid (snd (pg_on_next eng st))"
    and "pg_active_index_valid (snd (pg_on_prev eng st))"
    and "0 \<le> i \<and> i < int (length (pg_file_list st))
         \<longrightarrow> pg_active_index_valid (snd (pg_on_file_select eng (Some i) st))"
    and "pg_active_index_valid (snd (pg_on_file_select eng None st))"
proof -
  show "pg_active_index_valid (snd (pg_on_play eng now st))"
    using assms
    by (auto simp: pg_active_index_valid_def pg_index_valid_def pg_on_play_def
        pg_play_current_def Let_def split: option.splits)
  show "pg_active_index_valid (pg_on_pause now st)"
    using assms by (simp add: pg_active_index_valid_def pg_index_valid_def pg_on_pause_def)
  show "pg_active_index_valid (pg_on_stop st)"
    using assms by (simp add: pg_active_index_valid_def pg_index_valid_def pg_on_stop_def)
  show "pg_active_index_valid (snd (pg_on_next eng st))"
  proof (cases "pg_file_list st = []")
    case True
    with assms show ?thesis by (simp add: pg_on_next_def)
  next
    case False
    then show ?thesis by (simp add: pg_active_index_valid_def pg_on_next_valid)
  qed
  show "pg_active_index_valid (snd (pg_on_prev eng st))"
  proof (cases "pg_file_list st = []")
    case True
    with assms show ?thesis by (simp add: pg_on_prev_def)
  next
    case False
    then show ?thesis by (simp add: pg_active_index_valid_def pg_on_prev_valid)
  qed
  show "0 \<le> i \<and> i < int (length (pg_file_list st))
         \<longrightarrow> pg_active_index_valid (snd (pg_on_file_select eng (Some i) st))"
    using assms
    by (simp add: pg_active_index_valid_def pg_index_valid_def pg_on_file_select_def Let_def
        pg_play_current_def)
  show "pg_active_index_valid (snd (pg_on_file_select eng None st))"
    using assms by (simp add: pg_on_file_select_def)
qed

text \<open>
  Claim C8. In every state a controller built over a non-empty playlist can reach, the
  playlist is non-empty and, when the phase is Playing or Paused (\<open>is_playing\<close> set),
  \<open>0 \<le> current_index < len(file_list)\<close>. Each of the handlers play, pause, stop, next,
  previous and select (of an index the dropdown offers, or of nothing) takes a state
  with this property to a state with it, whether or not the engine raises.
\<close>

theorem c8_active_index_valid:
  "(pg_reachable st \<longrightarrow>
      pg_file_list st \<noteq> []
      \<and> (pg_is_playing st \<longrightarrow>
           0 \<le> pg_current_index st \<and> pg_current_index st < int (length (pg_file_list st))))
   \<and> (pg_active_index_valid s \<longrightarrow>
        pg_active_index_valid (snd (pg_on_play eng now s))
        \<and> pg_active_index_valid (pg_on_pause now s)
        \<and> pg_active_index_valid (pg_on_stop s)
        \<and> pg_active_index_valid (snd (pg_on_next eng s))
        \<and> pg_active_index_valid (snd (pg_on_prev eng s))
        \<and> (0 \<le> i \<and> i < int (length (pg_file_list s))
             \<longrightarrow> pg_active_index_valid (snd (pg_on_file_select eng (Some i) s)))
        \<and> pg_active_index_valid (snd (pg_on_file_select eng None s)))"
proof -
  have a: "pg_reachable st \<longrightarrow>
      pg_file_list st \<noteq> []
      \<and> (pg_is_playing st \<longrightarrow>
           0 \<le> pg_current_index st \<and> pg_current_index st < int (length (pg_file_list st)))"
    using pg_reachable_valid [of st] pg_index_valid_nonempty [of st]
    by (auto simp: pg_index_valid_def)
  have b: "pg_active_index_valid s \<longrightarrow>
        pg_active_index_valid (snd (pg_on_play eng now s))
        \<and> pg_active_index_valid (pg_on_pause now s)
        \<and> pg_active_index_valid (pg_on_stop s)
        \<and> pg_active_index_valid (snd (pg_on_next eng s))
        \<and> pg_active_index_valid (snd (pg_on_prev eng s))
        \<and> (0 \<le> i \<and> i < int (length (pg_file_list s))
             \<longrightarrow> pg_active_index_valid (snd (pg_on_file_select eng (Some i) s)))
        \<and> pg_active_index_valid (snd (pg_on_file_select eng None s))"
    by (simp add: pg_handlers_keep_active_index_valid)
  from a b show ?thesis by (rule conjI)
qed

lemma pg_demo_playing_reachable: "pg_reachable pg_demo_playing"
  unfolding pg_demo_playing_def
  by (rule pg_reachable.by_play) (rule pg_reachable.built [OF pg_init_demo])

theorem c8_active_index_valid_witness:
  "pg_reachable pg_demo_playing \<and> pg_is_playing pg_demo_playing
   \<and> pg_file_list pg_demo_playing = [''outputs/a.wav'', ''outputs/b.wav'']
   \<and> pg_current_index pg_demo_playing = 0
   \<and> pg_active_index_valid pg_demo_playing
   \<and> pg_active_index_valid (snd (pg_on_play demo_engine 1 pg_demo_playing))
   \<and> pg_active_index_valid (pg_on_pause 1 pg_demo_playing)
   \<and> pg_active_index_valid (pg_on_stop pg_demo_playing)
   \<and> pg_active_index_valid (snd (pg_on_next demo_engine pg_demo_playing))
   \<and> pg_active_index_valid (snd (pg_on_prev demo_engine pg_demo_playing))
   \<and> pg_active_index_valid (snd (pg_on_file_select demo_engine (Some 1) pg_demo_playing))
   \<and> pg_is_playing (snd (pg_on_file_select demo_engine (Some 1) pg_demo_playing))
   \<and> pg_current_index (snd (pg_on_file_select demo_engine (Some 1) pg_demo_playing)) = 1"
proof -
  have v: "pg_active_index_valid pg_demo_playing"
    by (simp add: pg_active_index_valid_def pg_index_valid_def pg_demo_playing_facts)
  have sel: "pg_is_playing (snd (pg_on_file_select demo_engine (Some 1) pg_demo_playing))
    \<and> pg_current_index (snd (pg_on_file_select demo_engine (Some 1) pg_demo_playing)) = 1"
    by (simp add: pg_on_file_select_def pg_play_current_def Let_def pg_demo_playing_facts
        demo_engine_plays)
  from c8_active_index_valid
    [where st = pg_demo_playing and s = pg_demo_playing and eng = demo_engine and now = 1
       and i = 1]
    pg_demo_playing_reachable v sel
  show ?thesis by (simp add: pg_demo_playing_facts)
qed

subsection \<open>The empty folder\<close>

text \<open>
  Claim C3 asks that over a folder without audio files construction succeeds, one
  diagnostic is printed, and every transport command is a no-op that raises nothing.
  The first two hold, and next and previous are no-ops (they test \<open>len(self.file_list)\<close>
  first). But \<open>__init__\<close> returns before it assigns \<open>is_playing\<close>, so play, pause and
  stop raise \<open>AttributeError\<close> on the object it leaves, in \<open>pygame_resume_player.py\<close>
  and in \<open>wav_player.py\<close> alike; a selection raises too, and in \<open>wav_player.py\<close> a
  volume change meets a mixer that was never initialised.
\<close>

theorem c3_empty_folder_commands_raise:
  "pg_init probe folder_path [] =
     Inert \<lparr>inert_folder_path = folder_path, inert_file_list = [],
            inert_printed = [NoWavFiles folder_path], inert_volume = None,
            inert_current_index = None, inert_mixer = []\<rparr>
   \<and> fst (pg_call_on_play eng now (pg_init probe folder_path [])) = Some (AttributeError ''is_playing'')
   \<and> fst (pg_call_on_pause now (pg_init probe folder_path [])) = Some (AttributeError ''is_playing'')
   \<and> fst (pg_call_on_stop (pg_init probe folder_path [])) = Some (AttributeError ''is_playing'')
   \<and> fst (pg_call_on_file_select eng (Some i) (pg_init probe folder_path []))
       = Some (AttributeError ''current_index'')
   \<and> pg_call_on_next eng (pg_init probe folder_path []) = (None, pg_init probe folder_path [])
   \<and> pg_call_on_prev eng (pg_init probe folder_path []) = (None, pg_init probe folder_path [])
   \<and> fst (pg_call_on_volume_change v (pg_init probe folder_path [])) = None
   \<and> wav_init folder_path [] =
     Inert \<lparr>inert_folder_path = folder_path, inert_file_list = [],
            inert_printed = [NoWavFiles folder_path], inert_volume = None,
            inert_current_index = None, inert_mixer = []\<rparr>
   \<and> fst (wav_call_on_play eng (wav_init folder_path [])) = Some (AttributeError ''is_playing'')
   \<and> fst (wav_call_on_pause (wav_init folder_path [])) = Some (AttributeError ''is_playing'')
   \<and> fst (wav_call_on_stop (wav_init folder_path [])) = Some (AttributeError ''is_playing'')
   \<and> fst (wav_call_on_file_select eng (Some i) (wav_init folder_path []))
       = Some (AttributeError ''is_playing'')
   \<and> wav_call_on_next eng (wav_init folder_path []) = (None, wav_init folder_path [])
   \<and> wav_call_on_prev eng (wav_init folder_path []) = (None, wav_init folder_path [])
   \<and> fst (wav_call_on_volume_change v (wav_init folder_path []))
       = Some (PygameError ''mixer not initialized'')"
  by (simp add: pg_init_def wav_init_def pg_call_on_play_def pg_call_on_pause_def
      pg_call_on_stop_def pg_call_on_file_select_def pg_call_on_next_def pg_call_on_prev_def
      pg_call_on_volume_change_def wav_call_on_play_def wav_call_on_pause_def
      wav_call_on_stop_def wav_call_on_file_select_def wav_call_on_next_def
      wav_call_on_prev_def wav_call_on_volume_change_def)

subsection \<open>Pause and resume\<close>

text \<open>
  What \<open>_on_play\<close> does to the position on resume: it adds the length of the pause to
  \<open>current_position\<close> (for any pause instant other than 0.0, which \<open>if self.pause_time\<close>
  takes for unset), and the monitor's \<open>start_time\<close> is not touched while paused.
\<close>

lemma pg_resume_adds_pause_length:
  assumes "pg_is_playing st" and "\<not> pg_is_paused st" and "paused_at \<noteq> 0"
    and "0 \<le> pg_current_index st" and "pg_current_index st < int (length (pg_file_list st))"
    and "loadable eng (pg_file_list st ! nat (pg_current_index st))"
    and "startable eng (pg_file_list st ! nat (pg_current_index st))"
  shows "pg_current_position (snd (pg_on_play eng resumed_at (pg_on_pause paused_at st)))
           = pg_current_position st + (resumed_at - paused_at)"
  using assms by (simp add: pg_on_play_def pg_on_pause_def pg_play_current_def Let_def)

lemma pg_monitor_keeps_anchor_while_paused:
  "pg_is_playing st \<Longrightarrow> pg_is_paused st \<Longrightarrow>
   pg_update_position eng now (start, st) = (None, (start, st))"
  by (simp add: pg_update_position_def)

lemma c1_tick0_eq:
  "c1_tick0 = (Some 0, pg_demo_playing\<lparr>pg_time_label := ''0:00 / 0:03''\<rparr>)"
  by (simp add: c1_tick0_def c1_started_def pg_demo_playing_eq pg_demo_def pg_run_defs)

lemma c1_tick2_eq:
  "c1_tick2 = (Some 0, pg_demo_playing\<lparr>pg_current_position := 2, pg_progress_bar := 200 / 3,
                         pg_time_label := ''0:02 / 0:03''\<rparr>)"
  by (simp add: c1_tick2_def c1_tick0_eq pg_demo_playing_eq pg_demo_def pg_run_defs)

lemma c1_paused_eq:
  "c1_paused = (Some 0, pg_demo_playing\<lparr>pg_current_position := 2, pg_progress_bar := 200 / 3,
                         pg_time_label := ''0:02 / 0:03'',
                         pg_mixer := pg_mixer pg_demo_playing @ [MusicStop],
                         pg_is_paused := True, pg_pause_time := Some 2\<rparr>)"
  by (simp add: c1_paused_def c1_tick2_eq pg_demo_playing_eq pg_demo_def pg_run_defs)

lemma c1_waiting_eq: "c1_waiting = c1_paused"
  by (simp add: c1_waiting_def c1_paused_eq pg_demo_playing_eq pg_demo_def pg_run_defs)

lemma c1_resumed_eq:
  "c1_resumed = (Some 0, pg_demo_playing\<lparr>pg_current_position := 12, pg_progress_bar := 200 / 3,
                         pg_time_label := ''0:02 / 0:03'',
                         pg_mixer := pg_mixer pg_demo_playing
                           @ [MusicStop, MusicStop, MusicLoad ''outputs/a.wav'',
                              MusicSetVolume 0.7, MusicPlay],
                         pg_pause_time := Some 2\<rparr>)"
  by (simp add: c1_resumed_def c1_waiting_eq c1_paused_eq pg_demo_playing_eq pg_demo_def pg_run_defs)

lemma c1_after_eq:
  "c1_after = (None, pg_demo_playing\<lparr>pg_current_position := 0, pg_progress_bar := 100,
                         pg_time_label := ''0:12 / 0:03'',
                         pg_mixer := pg_mixer pg_demo_playing
                           @ [MusicStop, MusicStop, MusicLoad ''outputs/a.wav'',
                              MusicSetVolume 0.7, MusicPlay,
                              MusicStop, MusicLoad ''outputs/b.wav'', MusicSetVolume 0.7, MusicPlay],
                         pg_pause_time := Some 2, pg_current_index := 1,
                         pg_current_file := ''b.wav'',
                         pg_current_file_label := Label_file ''b.wav''\<rparr>)"
  by (simp add: c1_after_def c1_resumed_eq pg_demo_playing_eq pg_demo_def pg_run_defs)

text \<open>
  Claim C1 asks that the elapsed time shown right after a resume equals the one shown
  right before the pause, whatever the length of the pause. The code does not do that.
  In the session above the display reads 0:02 when the track is paused at 2 s; after a
  pause of 10 s \<open>_on_play\<close> sets \<open>current_position\<close> to 12, the monitor's anchor is
  still the one armed before the pause, its next iteration computes an elapsed time of
  12 s, writes 0:12 to the time text and, 12 s being past the track's 3 s, moves on to
  the next track.
\<close>

theorem c1_resume_jumps_by_pause_length:
  "fst c1_tick2 = Some 0
   \<and> pg_current_position (snd c1_tick2) = 2
   \<and> pg_time_label (snd c1_tick2) = ''0:02 / 0:03''
   \<and> pg_is_playing (snd c1_paused) \<and> pg_is_paused (snd c1_paused)
   \<and> pg_pause_time (snd c1_paused) = Some 2
   \<and> c1_waiting = c1_paused
   \<and> pg_is_playing (snd c1_resumed) \<and> \<not> pg_is_paused (snd c1_resumed)
   \<and> fst c1_resumed = Some 0
   \<and> pg_current_index (snd c1_resumed) = 0
   \<and> pg_current_position (snd c1_resumed) = 12
   \<and> pg_time_label (snd c1_after) = ''0:12 / 0:03''
   \<and> pg_progress_bar (snd c1_after) = 100
   \<and> pg_current_index (snd c1_after) = 1"
  by (simp add: c1_tick2_eq c1_paused_eq c1_waiting_eq c1_resumed_eq c1_after_eq
      pg_demo_playing_eq pg_demo_def)

subsection \<open>The end of a track\<close>











lemma c2_on_b_eq:
  "c2_on_b = pg_demo_playing\<lparr>pg_current_index := 1,
               pg_mixer := pg_mixer pg_demo_playing
                 @ [MusicStop, MusicLoad ''outputs/b.wav'', MusicSetVolume 0.7, MusicPlay],
               pg_current_file := ''b.wav'',
               pg_current_file_label := Label_file ''b.wav''\<rparr>"
  by (simp add: c2_on_b_def pg_demo_playing_eq pg_demo_def pg_run_defs)

text \<open>
  The two checks of one monitor iteration are independent. The advance made for a
  notification does not reset the monitor's \<open>start_time\<close>, so the elapsed time that
  the position update computes next is still that of the track that ended; when it is
  not below the new track's duration the iteration advances a second time.
\<close>

lemma pg_monitor_tick_both_checks_advance_twice:
  "pg_current_index (snd c2_both_checks) = 1
   \<and> pg_mixer (snd c2_both_checks)
       = pg_mixer c2_on_b
           @ [MusicStop, MusicLoad ''outputs/a.wav'', MusicSetVolume 0.7, MusicPlay,
              MusicStop, MusicLoad ''outputs/b.wav'', MusicSetVolume 0.7, MusicPlay]"
  by (simp add: c2_both_checks_def c2_on_b_eq pg_demo_playing_eq pg_demo_def pg_run_defs)






subsection \<open>A track that cannot be played\<close>














end
